theory Spec2Isabelle
  imports Complex_Main
begin

section \<open>JavaScript numbers\<close>

text \<open>
  Pixel quantities are finite \<open>number\<close>s and are modelled as reals. The one division
  of the composables whose divisor can be zero is the one by \<open>dayWidth\<close>; its result
  is a \<open>jsnum\<close>, which keeps the three non-finite values of IEEE arithmetic apart from
  the finite ones.
\<close>

datatype 'a jsnum = Num 'a | PosInfinity | NegInfinity | NaN

fun isFinite :: "'a jsnum \<Rightarrow> bool" where
  "isFinite (Num x) = True"
| "isFinite PosInfinity = False"
| "isFinite NegInfinity = False"
| "isFinite NaN = False"

text \<open>\<open>a / b\<close> for finite \<open>a\<close> and a finite \<open>b\<close> that is not the negative zero.\<close>

definition js_div :: "real \<Rightarrow> real \<Rightarrow> real jsnum" where
  "js_div a b =
     (if b \<noteq> 0 then Num (a / b)
      else if 0 < a then PosInfinity
      else if a < 0 then NegInfinity
      else NaN)"

text \<open>\<open>Math.round\<close>: the nearest integer, a tie going towards plus infinity.\<close>

definition Math_round :: "real \<Rightarrow> int" where
  "Math_round x = \<lfloor>x + 1 / 2\<rfloor>"

fun Math_round_js :: "real jsnum \<Rightarrow> int jsnum" where
  "Math_round_js (Num x) = Num (Math_round x)"
| "Math_round_js PosInfinity = PosInfinity"
| "Math_round_js NegInfinity = NegInfinity"
| "Math_round_js NaN = NaN"

section \<open>Dates\<close>

text \<open>
  A \<open>Date\<close> is modelled by its time value: the milliseconds since 1 January 1970,
  00:00 of the local wall clock. There is no time zone and no daylight saving shift, and
  the time value is not bounded. The operations follow the abstract operations of the
  ECMAScript specification (Day, TimeWithinDay, DayFromYear, MonthFromTime, DateFromTime,
  MakeDay, MakeTime, MakeDate).
\<close>

type_synonym date = int

definition msPerDay :: int where
  "msPerDay = 24 * 60 * 60 * 1000"

definition Day :: "date \<Rightarrow> int" where
  "Day t = t div msPerDay"

definition TimeWithinDay :: "date \<Rightarrow> int" where
  "TimeWithinDay t = t mod msPerDay"

definition InLeapYear :: "int \<Rightarrow> bool" where
  "InLeapYear y = (y mod 4 = 0 \<and> (y mod 100 \<noteq> 0 \<or> y mod 400 = 0))"

definition DayFromYear :: "int \<Rightarrow> int" where
  "DayFromYear y =
     365 * (y - 1970) + (y - 1969) div 4 - (y - 1901) div 100 + (y - 1601) div 400"

text \<open>
  YearFromTime is the largest year whose first day is not after the given day. It is
  found by stepping up from a year that is certainly not too late.
\<close>

function year_up :: "int \<Rightarrow> int \<Rightarrow> int" where
  "year_up y n = (if DayFromYear (y + 1) \<le> n then year_up (y + 1) n else y)"
  by pat_completeness auto
termination
proof (relation "measure (\<lambda>(y, n). nat (n - DayFromYear y))")
  show "wf (measure (\<lambda>(y, n). nat (n - DayFromYear y)))"
    by simp
next
  fix y n :: int
  assume le: "DayFromYear (y + 1) \<le> n"
  have up: "\<And>k a :: int. 0 < k \<Longrightarrow> a div k \<le> (a + 1) div k"
    by (intro zdiv_mono1) auto
  have "(y - 1901 + 1) div 100 \<le> (y - 1901 + 100) div 100"
    by (intro zdiv_mono1) auto
  then have b: "(y + 1 - 1901) div 100 \<le> (y - 1901) div 100 + 1"
    by (simp add: algebra_simps)
  have a: "(y - 1969) div 4 \<le> (y + 1 - 1969) div 4"
    using up [of 4 "y - 1969"] by (simp add: algebra_simps)
  have c: "(y - 1601) div 400 \<le> (y + 1 - 1601) div 400"
    using up [of 400 "y - 1601"] by (simp add: algebra_simps)
  have lin: "\<And>a a' b b' c c' :: int. a \<le> a' \<Longrightarrow> b' \<le> b + 1 \<Longrightarrow> c \<le> c' \<Longrightarrow>
      365 * (y - 1970) + a - b + c < 365 * (y + 1 - 1970) + a' - b' + c'"
    by arith
  have "DayFromYear y < DayFromYear (y + 1)"
    unfolding DayFromYear_def by (rule lin [OF a b c])
  with le show "((y + 1, n), (y, n)) \<in> measure (\<lambda>(y, n). nat (n - DayFromYear y))"
    by simp
qed

declare year_up.simps [simp del]

definition YearFromDay :: "int \<Rightarrow> int" where
  "YearFromDay n = year_up (1970 + (if 0 \<le> n then n div 366 else n div 365)) n"

definition YearFromTime :: "date \<Rightarrow> int" where
  "YearFromTime t = YearFromDay (Day t)"

definition DayWithinYear :: "date \<Rightarrow> int" where
  "DayWithinYear t = Day t - DayFromYear (YearFromTime t)"

text \<open>The day of the year on which month \<open>m\<close> (0 to 11) starts.\<close>

definition monthStart :: "int \<Rightarrow> bool \<Rightarrow> int" where
  "monthStart m leap =
     (let l = (if leap then 1 else 0) in
      if m = 0 then 0
      else if m = 1 then 31
      else if m = 2 then 59 + l
      else if m = 3 then 90 + l
      else if m = 4 then 120 + l
      else if m = 5 then 151 + l
      else if m = 6 then 181 + l
      else if m = 7 then 212 + l
      else if m = 8 then 243 + l
      else if m = 9 then 273 + l
      else if m = 10 then 304 + l
      else 334 + l)"

definition MonthFromTime :: "date \<Rightarrow> int" where
  "MonthFromTime t =
     (let d = DayWithinYear t; leap = InLeapYear (YearFromTime t) in
      if d < monthStart 1 leap then 0
      else if d < monthStart 2 leap then 1
      else if d < monthStart 3 leap then 2
      else if d < monthStart 4 leap then 3
      else if d < monthStart 5 leap then 4
      else if d < monthStart 6 leap then 5
      else if d < monthStart 7 leap then 6
      else if d < monthStart 8 leap then 7
      else if d < monthStart 9 leap then 8
      else if d < monthStart 10 leap then 9
      else if d < monthStart 11 leap then 10
      else 11)"

definition DateFromTime :: "date \<Rightarrow> int" where
  "DateFromTime t =
     DayWithinYear t - monthStart (MonthFromTime t) (InLeapYear (YearFromTime t)) + 1"

definition MakeDay :: "int \<Rightarrow> int \<Rightarrow> int \<Rightarrow> int" where
  "MakeDay year month dt =
     (let ym = year + month div 12; mn = month mod 12 in
      DayFromYear ym + monthStart mn (InLeapYear ym) + dt - 1)"

definition MakeTime :: "int \<Rightarrow> int \<Rightarrow> int \<Rightarrow> int \<Rightarrow> int" where
  "MakeTime h m s ms = h * 3600000 + m * 60000 + s * 1000 + ms"

definition MakeDate :: "int \<Rightarrow> int \<Rightarrow> date" where
  "MakeDate day time = day * msPerDay + time"

text \<open>
  \<open>new Date(year, month, day, hours, minutes, seconds, ms)\<close>. A year from 0 to 99 stands
  for the year 1900 + year.
\<close>

definition fullYear :: "int \<Rightarrow> int" where
  "fullYear year = (if 0 \<le> year \<and> year \<le> 99 then 1900 + year else year)"

definition Date_new :: "int \<Rightarrow> int \<Rightarrow> int \<Rightarrow> int \<Rightarrow> int \<Rightarrow> int \<Rightarrow> int \<Rightarrow> date" where
  "Date_new year month dt h m s ms =
     MakeDate (MakeDay (fullYear year) month dt) (MakeTime h m s ms)"

definition getTime :: "date \<Rightarrow> int" where
  "getTime t = t"

definition getFullYear :: "date \<Rightarrow> int" where
  "getFullYear t = YearFromTime t"

definition getMonth :: "date \<Rightarrow> int" where
  "getMonth t = MonthFromTime t"

definition getDate :: "date \<Rightarrow> int" where
  "getDate t = DateFromTime t"

definition setDate :: "date \<Rightarrow> int \<Rightarrow> date" where
  "setDate t dt =
     MakeDate (MakeDay (YearFromTime t) (MonthFromTime t) dt) (TimeWithinDay t)"

definition setHours :: "date \<Rightarrow> int \<Rightarrow> int \<Rightarrow> int \<Rightarrow> int \<Rightarrow> date" where
  "setHours t h m s ms = MakeDate (Day t) (MakeTime h m s ms)"

section \<open>useCalculations\<close>

datatype ViewMode = months | weeks | days

text \<open>The refs the composable is given: container width, selected year, view mode.\<close>

record calc =
  containerWidth :: real
  selectedYear :: int
  viewMode :: ViewMode

definition daysInYear :: "calc \<Rightarrow> int" where
  "daysInYear c =
     (let startOfYear = Date_new (selectedYear c) 0 1 0 0 0 0;
          endOfYear = Date_new (selectedYear c) 11 31 23 59 59 0
      in \<lceil>of_int (getTime endOfYear - getTime startOfYear) / of_int (24 * 60 * 60 * 1000 :: int) :: real\<rceil> + 1)"

definition dayWidth :: "calc \<Rightarrow> real" where
  "dayWidth c =
     (case viewMode c of
        months \<Rightarrow> containerWidth c / (12 * 30)
      | weeks \<Rightarrow> containerWidth c / (10 * 7)
      | days \<Rightarrow> containerWidth c / 30)"

definition pixelsToDays :: "calc \<Rightarrow> real \<Rightarrow> int jsnum" where
  "pixelsToDays c pixels = Math_round_js (js_div pixels (dayWidth c))"

definition daysToPixels :: "calc \<Rightarrow> real \<Rightarrow> real" where
  "daysToPixels c d = d * dayWidth c"

definition totalTimeUnits :: "calc \<Rightarrow> int" where
  "totalTimeUnits c =
     (if viewMode c = months then 12
      else if viewMode c = weeks then \<lceil>of_int (daysInYear c) / 7 :: real\<rceil>
      else daysInYear c)"

definition timelineWidth :: "calc \<Rightarrow> real" where
  "timelineWidth c =
     (if viewMode c = months then containerWidth c
      else max (containerWidth c) (dayWidth c * of_int (daysInYear c)))"

text \<open>
  An item. The optional \<open>id\<close> is \<open>None\<close> when the object has no such property.
  Both dates are valid dates, given by their time values.
\<close>

record Item =
  title :: string
  ident :: "string option"
  startDate :: date
  endDate :: date

text \<open>
  The pixel strings of the source (\<open>`${left}px`\<close>, \<open>`translateX(${left}px)`\<close>,
  \<open>`${width}px`\<close>) are modelled by the numbers they print.
\<close>

record ItemStyle =
  transform :: real
  styleWidth :: real

record ComputedItem = Item +
  start :: int
  width :: real
  durationDays :: int
  left :: real
  style :: ItemStyle

definition filteredItems :: "calc \<Rightarrow> Item list \<Rightarrow> Item list" where
  "filteredItems c items =
     filter (\<lambda>item.
        let startYear = getFullYear (startDate item);
            endYear = getFullYear (endDate item)
        in startYear \<le> selectedYear c \<and> endYear \<ge> selectedYear c) items"

definition getYearStart :: "int \<Rightarrow> date" where
  "getYearStart year = setHours (Date_new year 0 1 0 0 0 0) 0 0 0 0"

definition createDateAtDay :: "date \<Rightarrow> int \<Rightarrow> bool \<Rightarrow> date" where
  "createDateAtDay yearStart dayOffset isEndDate =
     (let date = setDate yearStart (getDate yearStart + dayOffset) in
      if isEndDate then setHours date 23 59 59 999 else setHours date 0 0 0 0)"

text \<open>
  The position cache \<open>dayPositionCache\<close> is a map from day offsets to positions. A
  function that reads or fills it takes the cache and returns the new one.
\<close>

type_synonym cache = "int \<rightharpoonup> real"

definition lastDayOfMonth :: "calc \<Rightarrow> int \<Rightarrow> int" where
  "lastDayOfMonth c i = getDate (Date_new (selectedYear c) (i + 1) 0 0 0 0 0)"

text \<open>The loop \<open>for (let i = 0; i < month; i++) position += ...\<close>.\<close>

function monthsBefore :: "calc \<Rightarrow> int \<Rightarrow> int \<Rightarrow> real \<Rightarrow> real" where
  "monthsBefore c i month position =
     (if i < month
      then monthsBefore c (i + 1) month
             (position + (of_int (lastDayOfMonth c i) / of_int (daysInYear c)) * containerWidth c)
      else position)"
  by pat_completeness auto
termination
  by (relation "measure (\<lambda>(c, i, month, position). nat (month - i))") auto

declare monthsBefore.simps [simp del]

definition getExactPositionForDay :: "calc \<Rightarrow> cache \<Rightarrow> int \<Rightarrow> real \<times> cache" where
  "getExactPositionForDay c dayPositionCache dayOfYear =
     (if viewMode c \<noteq> months then (of_int dayOfYear * dayWidth c, dayPositionCache)
      else case dayPositionCache dayOfYear of
        Some p \<Rightarrow> (p, dayPositionCache)
      | None \<Rightarrow>
          (let yearStart = Date_new (selectedYear c) 0 1 0 0 0 0;
               date = setDate yearStart (getDate yearStart + dayOfYear);
               month = getMonth date;
               day = getDate date - 1;
               position = monthsBefore c 0 month 0;
               lastDayInMonth = lastDayOfMonth c month;
               position' = position +
                 (of_int day / of_int lastDayInMonth) *
                 ((of_int lastDayInMonth / of_int (daysInYear c)) * containerWidth c)
           in (position', dayPositionCache(dayOfYear \<mapsto> position'))))"

definition clearCache :: "cache \<Rightarrow> cache" where
  "clearCache dayPositionCache = Map.empty"

text \<open>
  The projection of one item. In the source a clamped date is the \<open>yearStart\<close> or
  \<open>yearEnd\<close> object itself, so \<open>setHours\<close> also changes that object: \<open>yearStart\<close>
  is at midnight already and keeps its value, and \<open>yearEnd\<close> is not read again. In the
  month view the two positions are read through the cache, which is returned.
\<close>

definition computeDateBasedPosition :: "calc \<Rightarrow> cache \<Rightarrow> Item \<Rightarrow> ComputedItem \<times> cache" where
  "computeDateBasedPosition c dayPositionCache item =
     (let yearStart = Date_new (selectedYear c) 0 1 0 0 0 0;
          yearEnd = Date_new (selectedYear c) 11 31 23 59 59 0;
          effectiveStartDate =
            setHours (if startDate item < yearStart then yearStart else startDate item) 0 0 0 0;
          effectiveEndDate =
            setHours (if endDate item > yearEnd then yearEnd else endDate item) 23 59 59 999;
          daysFromYearStartToItemStart =
            max 0 \<lfloor>of_int (getTime effectiveStartDate - getTime yearStart)
                     / of_int (24 * 60 * 60 * 1000 :: int) :: real\<rfloor>;
          daysFromYearStartToItemEnd =
            \<lfloor>of_int (getTime effectiveEndDate - getTime yearStart)
               / of_int (24 * 60 * 60 * 1000 :: int) :: real\<rfloor>;
          durationInDays =
            max 1 (daysFromYearStartToItemEnd - daysFromYearStartToItemStart + 1);
          (l, w, cache') =
            (if viewMode c = months then
               let (l, cache1) = getExactPositionForDay c dayPositionCache daysFromYearStartToItemStart;
                   (endPosition, cache2) = getExactPositionForDay c cache1 daysFromYearStartToItemEnd
               in (l, max 4 (endPosition - l), cache2)
             else
               (of_int daysFromYearStartToItemStart * dayWidth c,
                of_int durationInDays * dayWidth c, dayPositionCache))
      in (\<lparr>title = title item, ident = ident item,
            startDate = startDate item, endDate = endDate item,
            start = daysFromYearStartToItemStart,
            width = w,
            durationDays = durationInDays,
            left = l,
            style = \<lparr>transform = l, styleWidth = w\<rparr>\<rparr>,
          cache'))"

text \<open>
  The end offset of a computed item, as the drag composable recovers it
  (\<open>item.start + item.durationDays - 1\<close>).
\<close>

definition endDay :: "ComputedItem \<Rightarrow> int" where
  "endDay item = start item + durationDays item - 1"

text \<open>
  Header labels. The label text is formatted by the locale; the model keeps the date it
  is formatted from.
\<close>

record TimeLabel =
  labelText :: date
  labelWidth :: real

definition monthLabel :: "calc \<Rightarrow> nat \<Rightarrow> TimeLabel" where
  "monthLabel c i =
     (let totalDaysInYear = daysInYear c;
          date = Date_new (selectedYear c) (int i) 1 0 0 0 0;
          lastDay = lastDayOfMonth c (int i);
          monthWidth = Math_round ((of_int lastDay / of_int totalDaysInYear) * containerWidth c)
      in \<lparr>labelText = date, labelWidth = of_int monthWidth\<rparr>)"

definition generateMonthLabels :: "calc \<Rightarrow> TimeLabel list" where
  "generateMonthLabels c =
     (let labels = map (monthLabel c) [0..<12];
          totalWidth = foldl (\<lambda>sum label. sum + labelWidth label) 0 labels
      in if totalWidth \<noteq> containerWidth c
         then labels[11 := (labels ! 11)
                \<lparr>labelWidth := labelWidth (labels ! 11) + (containerWidth c - totalWidth)\<rparr>]
         else labels)"

section \<open>The unit width of the component before the composables\<close>

text \<open>
  \<open>Gantt.vue\<close> computed its unit width itself, with fixed widths for an unmeasured
  container.
\<close>

definition Gantt_totalTimeUnits :: "calc \<Rightarrow> int" where
  "Gantt_totalTimeUnits c =
     (let startOfYear = Date_new (selectedYear c) 0 1 0 0 0 0;
          endOfYear = Date_new (selectedYear c) 11 31 23 59 59 0
      in if viewMode c = months then 12
         else if viewMode c = weeks then
           \<lceil>of_int (getTime endOfYear - getTime startOfYear)
              / of_int (7 * 24 * 60 * 60 * 1000 :: int) :: real\<rceil> + 1
         else
           \<lceil>of_int (getTime endOfYear - getTime startOfYear)
              / of_int (24 * 60 * 60 * 1000 :: int) :: real\<rceil> + 1)"

definition timeUnitWidth :: "calc \<Rightarrow> real" where
  "timeUnitWidth c =
     (if containerWidth c = 0 \<or> Gantt_totalTimeUnits c = 0 then
        (if viewMode c = months then 112
         else if viewMode c = weeks then 50
         else 24)
      else if viewMode c = months then containerWidth c / 12
      else if viewMode c = weeks then containerWidth c / 10
      else containerWidth c / 30)"

section \<open>useDrag\<close>

text \<open>
  The composable is modelled as \<open>Gantt.vue\<close> wires it: its parameters
  \<open>selectedYear\<close>, \<open>getYearStart\<close>, \<open>createDateAtDay\<close> and \<open>pixelsToDays\<close> are those
  of \<open>useCalculations\<close> on the same refs. Its refs are the fields of \<open>DragState\<close>. The
  frame handle \<open>rafId\<close> is never set, so it is left out, and so is the class list of the
  dragged element.
\<close>

datatype ResizeType = Start | End | Move | Null

text \<open>
  The tooltip text is a date or a date range formatted by the locale; the model keeps
  the dates, \<open>None\<close> being an Invalid Date.
\<close>

datatype TooltipContent =
    EmptyContent
  | StartContent "date option"
  | EndContent "date option"
  | RangeContent "date option" "date option"

record TooltipState =
  tooltipShow :: bool
  content :: TooltipContent
  tooltipLeft :: real
  tooltipTop :: real

record MouseEvent =
  clientX :: real
  clientY :: real
  parentElement :: "nat option"

record DragState =
  isDragging :: bool
  dragType :: ResizeType
  activeItemIndex :: "nat option"
  initialMouseX :: real
  initialItemWidth :: real
  initialItemStartPx :: real
  initialStartDay :: int
  initialEndDay :: int
  lastProcessedX :: real
  isFirstDragMovement :: bool
  activeItemStyle :: ItemStyle
  activeGanttItemRef :: "nat option"
  currentStartDay :: int
  currentDurationDays :: int
  tooltipState :: TooltipState
  userSelect :: string

definition initialDragState :: DragState where
  "initialDragState =
     \<lparr>isDragging = False, dragType = Null, activeItemIndex = None,
      initialMouseX = 0, initialItemWidth = 0, initialItemStartPx = 0,
      initialStartDay = 0, initialEndDay = 0, lastProcessedX = 0,
      isFirstDragMovement = True,
      activeItemStyle = \<lparr>transform = 0, styleWidth = 0\<rparr>,
      activeGanttItemRef = None, currentStartDay = 0, currentDurationDays = 0,
      tooltipState = \<lparr>tooltipShow = False, content = EmptyContent,
                      tooltipLeft = 0, tooltipTop = 0\<rparr>,
      userSelect = []\<rparr>"

definition throttleDistance :: real where
  "throttleDistance = 1"

text \<open>
  A day offset that is the sum of an integer and a day delta, and the date made from it.
  A non-finite offset makes an Invalid Date.
\<close>

fun js_add :: "int \<Rightarrow> int jsnum \<Rightarrow> int jsnum" where
  "js_add a (Num b) = Num (a + b)"
| "js_add a PosInfinity = PosInfinity"
| "js_add a NegInfinity = NegInfinity"
| "js_add a NaN = NaN"

fun createDateAtDay_js :: "date \<Rightarrow> int jsnum \<Rightarrow> bool \<Rightarrow> date option" where
  "createDateAtDay_js yearStart (Num dayOffset) isEndDate =
     Some (createDateAtDay yearStart dayOffset isEndDate)"
| "createDateAtDay_js yearStart PosInfinity isEndDate = None"
| "createDateAtDay_js yearStart NegInfinity isEndDate = None"
| "createDateAtDay_js yearStart NaN isEndDate = None"

definition updateTooltipPosition :: "DragState \<Rightarrow> MouseEvent \<Rightarrow> DragState" where
  "updateTooltipPosition s event =
     (if \<not> tooltipShow (tooltipState s) then s
      else
        let newLeft = clientX event + 10;
            newTop = clientY event - 30
        in if tooltipLeft (tooltipState s) \<noteq> newLeft \<or> tooltipTop (tooltipState s) \<noteq> newTop
           then s\<lparr>tooltipState := (tooltipState s)\<lparr>tooltipLeft := newLeft, tooltipTop := newTop\<rparr>\<rparr>
           else s)"

definition startResize ::
  "calc \<Rightarrow> DragState \<Rightarrow> MouseEvent \<Rightarrow> ResizeType \<Rightarrow> nat \<Rightarrow> ComputedItem \<Rightarrow> DragState" where
  "startResize c s event type index item =
     (let s1 = s\<lparr>isDragging := True,
                 dragType := type,
                 activeItemIndex := Some index,
                 initialMouseX := clientX event,
                 isFirstDragMovement := True,
                 lastProcessedX := clientX event\<rparr>;
          s2 = (case parentElement event of
                  Some e \<Rightarrow> s1\<lparr>activeGanttItemRef := Some e\<rparr>
                | None \<Rightarrow> s1);
          s3 = s2\<lparr>initialItemWidth := width item,
                  initialItemStartPx := left item,
                  initialStartDay := start item,
                  initialEndDay := start item + durationDays item - 1,
                  currentStartDay := start item,
                  currentDurationDays := durationDays item,
                  activeItemStyle :=
                    \<lparr>transform = transform (style item), styleWidth = styleWidth (style item)\<rparr>\<rparr>;
          yearStart = getYearStart (selectedYear c);
          tip =
            (if type = Start then
               StartContent (Some (createDateAtDay yearStart (start item) False))
             else if type = End then
               EndContent (Some (createDateAtDay yearStart (initialEndDay s3) True))
             else
               RangeContent (Some (createDateAtDay yearStart (start item) False))
                            (Some (createDateAtDay yearStart (initialEndDay s3) True)));
          s4 = s3\<lparr>tooltipState := (tooltipState s3)\<lparr>tooltipShow := True, content := tip\<rparr>\<rparr>;
          s5 = updateTooltipPosition s4 event
      in s5\<lparr>userSelect := ''none''\<rparr>)"

definition updateItemStylePixels :: "DragState \<Rightarrow> real \<Rightarrow> real \<Rightarrow> DragState" where
  "updateItemStylePixels s leftPx widthPx =
     (if activeItemIndex s = None then s
      else s\<lparr>activeItemStyle := \<lparr>transform = leftPx, styleWidth = widthPx\<rparr>\<rparr>)"

definition handleEndResizePixels :: "calc \<Rightarrow> DragState \<Rightarrow> real \<Rightarrow> DragState" where
  "handleEndResizePixels c s deltaX =
     (if activeItemIndex s = None then s
      else
        let newWidth = max 4 (initialItemWidth s + deltaX);
            oldEndPx = initialItemStartPx s + initialItemWidth s;
            newEndPx = initialItemStartPx s + newWidth;
            s1 = updateItemStylePixels s (initialItemStartPx s) newWidth
        in if tooltipShow (tooltipState s1) then
             let yearStart = getYearStart (selectedYear c);
                 dayOffset = js_add (initialEndDay s1) (pixelsToDays c (newEndPx - oldEndPx));
                 endDate = createDateAtDay_js yearStart dayOffset True
             in s1\<lparr>tooltipState := (tooltipState s1)\<lparr>content := EndContent endDate\<rparr>\<rparr>
           else s1)"

definition handleStartResizePixels :: "calc \<Rightarrow> DragState \<Rightarrow> real \<Rightarrow> DragState" where
  "handleStartResizePixels c s deltaX =
     (if activeItemIndex s = None then s
      else
        let maxDeltaX = initialItemWidth s - 4;
            limitedDeltaX = min deltaX maxDeltaX;
            newLeft = initialItemStartPx s + limitedDeltaX;
            newWidth = initialItemWidth s - limitedDeltaX;
            s1 = updateItemStylePixels s newLeft newWidth
        in if tooltipShow (tooltipState s1) then
             let yearStart = getYearStart (selectedYear c);
                 dayOffset = js_add (initialStartDay s1) (pixelsToDays c limitedDeltaX);
                 startDate = createDateAtDay_js yearStart dayOffset False
             in s1\<lparr>tooltipState := (tooltipState s1)\<lparr>content := StartContent startDate\<rparr>\<rparr>
           else s1)"

definition handleMovePixels :: "calc \<Rightarrow> DragState \<Rightarrow> real \<Rightarrow> DragState" where
  "handleMovePixels c s deltaX =
     (if activeItemIndex s = None then s
      else
        let newLeft = max 0 (initialItemStartPx s + deltaX);
            s1 = updateItemStylePixels s newLeft (initialItemWidth s)
        in if tooltipShow (tooltipState s1) then
             let yearStart = getYearStart (selectedYear c);
                 dayDelta = pixelsToDays c deltaX;
                 startDayOffset = js_add (initialStartDay s1) dayDelta;
                 endDayOffset = js_add (initialEndDay s1) dayDelta;
                 startDate = createDateAtDay_js yearStart startDayOffset False;
                 endDate = createDateAtDay_js yearStart endDayOffset True
             in s1\<lparr>tooltipState := (tooltipState s1)\<lparr>content := RangeContent startDate endDate\<rparr>\<rparr>
           else s1)"

definition onMouseMove :: "calc \<Rightarrow> DragState \<Rightarrow> MouseEvent \<Rightarrow> DragState" where
  "onMouseMove c s event =
     (if \<not> isDragging s \<or> activeItemIndex s = None then s
      else if \<bar>clientX event - lastProcessedX s\<bar> < throttleDistance then s
      else
        let deltaX = clientX event - initialMouseX s;
            s1 = s\<lparr>lastProcessedX := clientX event\<rparr>
        in if \<bar>deltaX\<bar> < 2 \<and> isFirstDragMovement s1 then s1
           else
             let s2 = s1\<lparr>isFirstDragMovement := False\<rparr>;
                 s3 = (if dragType s2 = Start then handleStartResizePixels c s2 deltaX
                       else if dragType s2 = End then handleEndResizePixels c s2 deltaX
                       else if dragType s2 = Move then handleMovePixels c s2 deltaX
                       else s2)
             in updateTooltipPosition s3 event)"

definition resetDragState :: "DragState \<Rightarrow> DragState" where
  "resetDragState s =
     s\<lparr>isDragging := False,
       dragType := Null,
       activeItemIndex := None,
       userSelect := [],
       tooltipState := (tooltipState s)\<lparr>tooltipShow := False\<rparr>,
       isFirstDragMovement := True,
       activeGanttItemRef := None\<rparr>"

text \<open>The notifications raised through \<open>emit\<close>, in the order they are raised.\<close>

datatype Emit = Select Item | UpdateItem Item | MoveItem Item | Resize Item

text \<open>
  \<open>TypeError\<close>: the active index is not an index of the filtered items, and reading the
  title of \<open>undefined\<close> throws. \<open>InvalidDate\<close>: the day delta is not finite, and the
  source goes on with an item whose new date is an Invalid Date, which is not a value of
  the items of this model.
\<close>

datatype DragError = TypeError | InvalidDate

fun findIndex :: "('a \<Rightarrow> bool) \<Rightarrow> 'a list \<Rightarrow> nat option" where
  "findIndex p [] = None"
| "findIndex p (x # xs) =
     (if p x then Some 0
      else case findIndex p xs of None \<Rightarrow> None | Some i \<Rightarrow> Some (Suc i))"

definition sameItem :: "Item \<Rightarrow> Item \<Rightarrow> bool" where
  "sameItem filteredItem item =
     (title filteredItem = title item \<and>
      (if ident filteredItem \<noteq> None \<and> ident item \<noteq> None
       then ident filteredItem = ident item
       else True))"

definition onMouseUp ::
  "calc \<Rightarrow> DragState \<Rightarrow> MouseEvent \<Rightarrow> Item list \<Rightarrow> Item list
     \<Rightarrow> DragError + (DragState \<times> Emit list)" where
  "onMouseUp c s event filteredList originalItems =
     (case activeItemIndex s of
        None \<Rightarrow> Inr (s, [])
      | Some index \<Rightarrow>
          if \<not> isDragging s then Inr (s, [])
          else
            let s1 = s\<lparr>tooltipState := (tooltipState s)\<lparr>tooltipShow := False\<rparr>\<rparr> in
            if length filteredList \<le> index then Inl TypeError
            else
              let filteredItem = filteredList ! index in
              case findIndex (sameItem filteredItem) originalItems of
                None \<Rightarrow> Inr (resetDragState s1, [])
              | Some originalItemIndex \<Rightarrow>
                  let originalItem = originalItems ! originalItemIndex;
                      initialMousePosition = initialMouseX s1;
                      hadActualDrag =
                        (\<not> isFirstDragMovement s1 \<and>
                         \<bar>clientX event - initialMousePosition\<bar> > 3)
                  in
                  if \<not> hadActualDrag then Inr (resetDragState s1, [Select originalItem])
                  else
                    let yearStart = getYearStart (selectedYear c);
                        deltaX = clientX event - initialMouseX s1
                    in
                    if dragType s1 = Start then
                      let limitedDeltaX = min deltaX (initialItemWidth s1 - 4);
                          dayDelta = pixelsToDays c limitedDeltaX
                      in case createDateAtDay_js yearStart
                                (js_add (initialStartDay s1) dayDelta) False of
                           None \<Rightarrow> Inl InvalidDate
                         | Some newStartDate \<Rightarrow>
                             let updatedItem = originalItem\<lparr>startDate := newStartDate\<rparr>
                             in Inr (resetDragState s1,
                                     [UpdateItem updatedItem, Resize updatedItem])
                    else if dragType s1 = End then
                      let newWidth = initialItemWidth s1 + deltaX;
                          oldEndPx = initialItemStartPx s1 + initialItemWidth s1;
                          newEndPx = initialItemStartPx s1 + max 4 newWidth;
                          dayDelta = pixelsToDays c (newEndPx - oldEndPx)
                      in case createDateAtDay_js yearStart
                                (js_add (initialEndDay s1) dayDelta) True of
                           None \<Rightarrow> Inl InvalidDate
                         | Some newEndDate \<Rightarrow>
                             let updatedItem = originalItem\<lparr>endDate := newEndDate\<rparr>
                             in Inr (resetDragState s1,
                                     [UpdateItem updatedItem, Resize updatedItem])
                    else
                      let dayDelta = pixelsToDays c deltaX in
                      case (createDateAtDay_js yearStart
                              (js_add (initialStartDay s1) dayDelta) False,
                            createDateAtDay_js yearStart
                              (js_add (initialEndDay s1) dayDelta) True) of
                        (Some newStartDate, Some newEndDate) \<Rightarrow>
                          let updatedItem =
                                originalItem\<lparr>startDate := newStartDate, endDate := newEndDate\<rparr>
                          in Inr (resetDragState s1,
                                  UpdateItem updatedItem #
                                  (if dragType s1 = Move then [MoveItem updatedItem] else []))
                      | _ \<Rightarrow> Inl InvalidDate)"

section \<open>Example data\<close>

text \<open>
  The day view of 2024 in a container of 900 pixels (30 pixels a day), and an item from
  11 January 2024, 00:00 to 21 January 2024, 23:59:59.999: day offsets 10 to 20.
\<close>

definition exampleCalc :: calc where
  "exampleCalc = \<lparr>containerWidth = 900, selectedYear = 2024, viewMode = days\<rparr>"

definition exampleItem :: Item where
  "exampleItem =
     \<lparr>title = ''Design'', ident = None,
      startDate = Date_new 2024 0 11 0 0 0 0, endDate = Date_new 2024 0 21 23 59 59 999\<rparr>"

definition exampleComputed :: ComputedItem where
  "exampleComputed = fst (computeDateBasedPosition exampleCalc Map.empty exampleItem)"

definition exampleDown :: MouseEvent where
  "exampleDown = \<lparr>clientX = 500, clientY = 40, parentElement = Some 1\<rparr>"

text \<open>A pointer event at horizontal position \<open>x\<close>.\<close>

definition pointerAt :: "real \<Rightarrow> MouseEvent" where
  "pointerAt x = \<lparr>clientX = x, clientY = 40, parentElement = None\<rparr>"

text \<open>The state after a press of kind \<open>type\<close> on the item and one move to \<open>x\<close>.\<close>

definition exampleDrag :: "ResizeType \<Rightarrow> real \<Rightarrow> DragState" where
  "exampleDrag type x =
     onMouseMove exampleCalc
       (startResize exampleCalc initialDragState exampleDown type 0 exampleComputed)
       (pointerAt x)"

text \<open>
  The view of the common year 2023, with an item from 1 June 2023 to 1 February 2024.
\<close>

definition exampleCalc2023 :: calc where
  "exampleCalc2023 = \<lparr>containerWidth = 900, selectedYear = 2023, viewMode = days\<rparr>"

definition exampleItem2023 :: Item where
  "exampleItem2023 =
     \<lparr>title = ''Build'', ident = None,
      startDate = Date_new 2023 5 1 0 0 0 0, endDate = Date_new 2024 1 1 0 0 0 0\<rparr>"

text \<open>
  A second item with the title of the first and no id either, in March 2024.
\<close>

definition exampleNamesake :: Item where
  "exampleNamesake =
     \<lparr>title = ''Design'', ident = None,
      startDate = Date_new 2024 2 1 0 0 0 0, endDate = Date_new 2024 2 31 23 59 59 999\<rparr>"

section \<open>Facts about dates\<close>

lemma msPerDay_pos: "0 < msPerDay"
  by (simp add: msPerDay_def)

lemma MakeTime_midnight: "MakeTime 0 0 0 0 = 0"
  by (simp add: MakeTime_def)

lemma MakeTime_last: "MakeTime 23 59 59 999 = msPerDay - 1"
  by (simp add: MakeTime_def msPerDay_def)

lemma Day_MakeDate: "0 \<le> t \<Longrightarrow> t < msPerDay \<Longrightarrow> Day (MakeDate d t) = d"
  using msPerDay_pos by (simp add: Day_def MakeDate_def div_pos_pos_trivial)

lemma Day_mult: "Day (d * msPerDay) = d"
  using msPerDay_pos by (simp add: Day_def)

lemma TimeWithinDay_range: "0 \<le> TimeWithinDay t \<and> TimeWithinDay t < msPerDay"
  using msPerDay_pos by (simp add: TimeWithinDay_def)

lemma MonthFromTime_range: "0 \<le> MonthFromTime t \<and> MonthFromTime t \<le> 11"
  by (simp add: MonthFromTime_def Let_def)

lemma MakeDay_in_year:
  "0 \<le> m \<Longrightarrow> m \<le> 11 \<Longrightarrow>
   MakeDay y m dt = DayFromYear y + monthStart m (InLeapYear y) + dt - 1"
  by (simp add: MakeDay_def Let_def div_pos_pos_trivial)

text \<open>Setting the day of the month moves the date by whole days.\<close>

lemma setDate_eq:
  "setDate t dt = MakeDate (Day t + dt - DateFromTime t) (TimeWithinDay t)"
proof -
  have "MakeDay (YearFromTime t) (MonthFromTime t) dt = Day t + dt - DateFromTime t"
    using MonthFromTime_range [of t]
    by (simp add: MakeDay_in_year DateFromTime_def DayWithinYear_def)
  then show ?thesis
    by (simp add: setDate_def)
qed

lemma setHours_eq: "setHours t h m s ms = Day t * msPerDay + MakeTime h m s ms"
  by (simp add: setHours_def MakeDate_def)

lemma createDateAtDay_eq:
  "createDateAtDay yearStart dayOffset isEndDate =
     (Day yearStart + dayOffset) * msPerDay + (if isEndDate then msPerDay - 1 else 0)"
proof -
  have "Day (setDate yearStart (getDate yearStart + dayOffset)) = Day yearStart + dayOffset"
    using TimeWithinDay_range [of yearStart]
    by (simp add: setDate_eq getDate_def Day_MakeDate)
  then show ?thesis
    by (simp add: createDateAtDay_def Let_def setHours_eq MakeTime_midnight MakeTime_last)
qed

lemma Date_new_Jan1: "Date_new year 0 1 0 0 0 0 = DayFromYear (fullYear year) * msPerDay"
  by (simp add: Date_new_def MakeDate_def MakeDay_def MakeTime_def monthStart_def)

lemma Date_new_Dec31:
  "Date_new year 11 31 23 59 59 0 =
     (DayFromYear (fullYear year) + (if InLeapYear (fullYear year) then 365 else 364)) * msPerDay
       + 86399000"
  by (simp add: Date_new_def MakeDate_def MakeDay_def MakeTime_def monthStart_def)

lemma getYearStart_eq: "getYearStart year = DayFromYear (fullYear year) * msPerDay"
  by (simp add: getYearStart_def setHours_eq Date_new_Jan1 Day_mult MakeTime_midnight)

subsection \<open>The calendar\<close>

lemma div_bounds:
  fixes a k :: int
  assumes "0 < k"
  shows "k * (a div k) \<le> a" and "a < k * (a div k) + k"
proof -
  have "a = k * (a div k) + a mod k"
    by simp
  moreover have "0 \<le> a mod k" and "a mod k < k"
    using assms by simp_all
  ultimately show "k * (a div k) \<le> a" and "a < k * (a div k) + k"
    by linarith+
qed

lemma leap_terms_le:
  fixes k A B C :: int
  assumes "4 * A \<le> k + 1" and "k + 69 < 100 * B + 100" and "400 * C \<le> k + 369"
    and "2 \<le> k \<or> k \<le> - 7"
  shows "A - B + C \<le> (if 0 \<le> k then k else 0)"
proof (cases "0 \<le> k")
  case True
  then have "2 \<le> k"
    using assms(4) by linarith
  then have "A - B + C \<le> k"
    using assms(1-3) by linarith
  then show ?thesis
    using True by simp
next
  case False
  then have "k \<le> - 7"
    using assms(4) by linarith
  then have "A - B + C \<le> 0"
    using assms(1-3) by linarith
  then show ?thesis
    using False by simp
qed

lemma DayFromYear_estimate:
  "DayFromYear (1970 + (if 0 \<le> n then n div 366 else n div 365)) \<le> n"
proof -
  define k where "k = (if 0 \<le> n then n div 366 else n div 365)"
  define A where "A = (k + 1) div 4"
  define B where "B = (k + 69) div 100"
  define C where "C = (k + 369) div 400"
  have dfy: "DayFromYear (1970 + k) = 365 * k + (A - B + C)"
    by (simp add: DayFromYear_def A_def B_def C_def algebra_simps)
  have kn: "(if 0 \<le> k then 366 * k else 365 * k) \<le> n" and sign: "0 \<le> k \<longleftrightarrow> 0 \<le> n"
  proof -
    show "0 \<le> k \<longleftrightarrow> 0 \<le> n"
      by (simp add: k_def pos_imp_zdiv_nonneg_iff neg_imp_zdiv_neg_iff not_le div_neg_pos_less0)
    then show "(if 0 \<le> k then 366 * k else 365 * k) \<le> n"
      using div_bounds(1) [of 366 n] div_bounds(1) [of 365 n] by (simp add: k_def)
  qed
  have leap: "A - B + C \<le> (if 0 \<le> k then k else 0)"
  proof (cases "2 \<le> k \<or> k \<le> - 7")
    case True
    show ?thesis
      using div_bounds(1) [of 4 "k + 1"] div_bounds(2) [of 100 "k + 69"]
        div_bounds(1) [of 400 "k + 369"] True
      unfolding A_def [symmetric] B_def [symmetric] C_def [symmetric]
      by (intro leap_terms_le) simp_all
  next
    case False
    then have "k = - 6 \<or> k = - 5 \<or> k = - 4 \<or> k = - 3 \<or> k = - 2 \<or> k = - 1 \<or> k = 0 \<or> k = 1"
      by arith
    then show ?thesis
      by (auto simp add: A_def B_def C_def)
  qed
  have "DayFromYear (1970 + k) \<le> n"
    using dfy kn leap by (cases "0 \<le> k") simp_all
  then show ?thesis
    by (simp add: k_def)
qed

lemma year_up_spec:
  "DayFromYear y \<le> n \<Longrightarrow>
   DayFromYear (year_up y n) \<le> n \<and> n < DayFromYear (year_up y n + 1)"
proof (induction y n rule: year_up.induct)
  case (1 y n)
  show ?case
  proof (cases "DayFromYear (y + 1) \<le> n")
    case True
    then show ?thesis
      using "1.IH" by (subst (1 2) year_up.simps) simp
  next
    case False
    then show ?thesis
      using "1.prems" by (subst (1 2) year_up.simps) simp
  qed
qed

text \<open>The year of a day is the year the day lies in.\<close>

lemma YearFromDay_spec:
  "DayFromYear (YearFromDay n) \<le> n \<and> n < DayFromYear (YearFromDay n + 1)"
  unfolding YearFromDay_def by (rule year_up_spec) (rule DayFromYear_estimate)

lemma DayWithinYear_nonneg: "0 \<le> DayWithinYear t"
  using YearFromDay_spec [of "Day t"] by (simp add: DayWithinYear_def YearFromTime_def)

lemma DateFromTime_pos: "1 \<le> DateFromTime t"
  using DayWithinYear_nonneg [of t]
  by (simp add: DateFromTime_def MonthFromTime_def Let_def monthStart_def)

lemma lastDayOfMonth_pos: "0 < lastDayOfMonth c i"
  using DateFromTime_pos [of "Date_new (selectedYear c) (i + 1) 0 0 0 0 0"]
  by (simp add: lastDayOfMonth_def getDate_def)

lemma div_succ:
  fixes a b k m :: int
  assumes "0 < k" and "b = a + 1" and "b mod k = m"
  shows "b div k = a div k + (if m = 0 then 1 else 0)"
proof -
  define r where "r = a mod k"
  have r: "0 \<le> r" "r < k"
    using assms(1) by (simp_all add: r_def)
  have eq: "b = (r + 1) + (a div k) * k"
    by (simp add: r_def assms(2))
  have d: "b div k = a div k + (r + 1) div k"
    unfolding eq using assms(1) by simp
  have m: "m = (r + 1) mod k"
    unfolding assms(3) [symmetric] eq by simp
  show ?thesis
  proof (cases "r + 1 = k")
    case True
    then show ?thesis
      using assms(1) by (simp add: d m)
  next
    case False
    then have "r + 1 < k"
      using r by simp
    then show ?thesis
      using r by (simp add: d m div_pos_pos_trivial mod_pos_pos_trivial)
  qed
qed

lemma shift_mod: "b = y + k * q \<Longrightarrow> b mod k = y mod (k::int)"
  by simp

lemma century_divides:
  fixes y :: int
  shows "y mod 400 = 0 \<Longrightarrow> y mod 100 = 0" and "y mod 100 = 0 \<Longrightarrow> y mod 4 = 0"
proof -
  have a: "y mod 400 mod 100 = y mod 100"
    by (rule mod_mod_cancel) simp
  have b: "y mod 100 mod 4 = y mod 4"
    by (rule mod_mod_cancel) simp
  show "y mod 100 = 0" if h: "y mod 400 = 0"
  proof -
    have "y mod 100 = y mod 400 mod 100"
      by (rule a [symmetric])
    also have "\<dots> = 0"
      unfolding h by (rule mod_0)
    finally show ?thesis .
  qed
  show "y mod 4 = 0" if h: "y mod 100 = 0"
  proof -
    have "y mod 4 = y mod 100 mod 4"
      by (rule b [symmetric])
    also have "\<dots> = 0"
      unfolding h by (rule mod_0)
    finally show ?thesis .
  qed
qed

lemma leap_count:
  fixes p4 p100 p400 :: bool
  assumes "p400 \<Longrightarrow> p100" and "p100 \<Longrightarrow> p4"
  shows "365 + (if p4 then 1 else 0) - (if p100 then 1 else 0) + (if p400 then 1 else 0)
     = (if p4 \<and> (\<not> p100 \<or> p400) then 366 else (365::int))"
proof (cases p400)
  case True
  then have "p100" and "p4"
    using assms by blast+
  with True show ?thesis
    by simp
next
  case False
  show ?thesis
  proof (cases p100)
    case True
    then have "p4"
      using assms by blast
    with True False show ?thesis
      by simp
  next
    case no: False
    with False show ?thesis
      by simp
  qed
qed

text \<open>A year has 365 days, a leap year 366.\<close>

lemma year_length_sum:
  fixes A B C ia ib ic y :: int
  shows "365 * (y + 1 - 1970) + (A + ia) - (B + ib) + (C + ic)
     - (365 * (y - 1970) + A - B + C) = 365 + ia - ib + ic"
  by simp

lemma year_length:
  "DayFromYear (y + 1) - DayFromYear y = (if InLeapYear y then 366 else 365)"
proof -
  have a: "(y + 1 - 1969) div 4 = (y - 1969) div 4 + (if y mod 4 = 0 then 1 else 0)"
    by (rule div_succ) (simp, simp, rule shift_mod [where q = "- 492"], simp)
  have b: "(y + 1 - 1901) div 100 = (y - 1901) div 100 + (if y mod 100 = 0 then 1 else 0)"
    by (rule div_succ) (simp, simp, rule shift_mod [where q = "- 19"], simp)
  have c: "(y + 1 - 1601) div 400 = (y - 1601) div 400 + (if y mod 400 = 0 then 1 else 0)"
    by (rule div_succ) (simp, simp, rule shift_mod [where q = "- 4"], simp)
  show ?thesis
    unfolding DayFromYear_def a b c year_length_sum InLeapYear_def
    by (rule leap_count) (erule century_divides)+
qed

lemma Day_decomposition:
  "MakeDay (YearFromTime t) (MonthFromTime t) (DateFromTime t) = Day t"
  using MonthFromTime_range [of t]
  by (simp add: MakeDay_in_year DateFromTime_def DayWithinYear_def)

subsection \<open>The year of the view\<close>

text \<open>
  What \<open>daysInYear\<close> computes: the span from 1 January 00:00 to 31 December 23:59:59 is
  one second short of 365 (or 366) days, its ceiling is 365 (or 366), and one is added.
\<close>

lemma daysInYear_eq:
  "daysInYear c = (if InLeapYear (fullYear (selectedYear c)) then 367 else 366)"
  by (simp add: daysInYear_def Let_def getTime_def Date_new_Jan1 Date_new_Dec31
      ceiling_divide_eq_div msPerDay_def algebra_simps del: of_int_diff of_int_add of_int_mult)

lemma daysInYear_pos: "0 < daysInYear c"
  by (simp add: daysInYear_eq)

text \<open>The value is one more than the number of days of the year.\<close>

lemma daysInYear_off_by_one:
  "daysInYear c =
     DayFromYear (fullYear (selectedYear c) + 1) - DayFromYear (fullYear (selectedYear c)) + 1"
  by (simp add: daysInYear_eq year_length)

section \<open>Facts about the labels\<close>

lemma foldl_sum_widths:
  "foldl (\<lambda>sum label. sum + labelWidth label) a labels = a + sum_list (map labelWidth labels)"
  by (induction labels arbitrary: a) simp_all

lemma sum_list_update_real:
  "k < length xs \<Longrightarrow> sum_list (xs[k := x]) = sum_list xs - xs ! k + (x::real)"
proof (induction xs arbitrary: k)
  case Nil
  then show ?case by simp
next
  case (Cons a xs)
  then show ?case by (cases k) simp_all
qed

lemma absorb_residual:
  "k < length ws \<Longrightarrow> sum_list (ws[k := ws ! k + (W - sum_list ws)]) = (W::real)"
  by (simp add: sum_list_update_real)

lemma month_labels_sum:
  "sum_list (map labelWidth (generateMonthLabels c)) = containerWidth c"
proof -
  define labels where "labels = map (monthLabel c) [0..<12]"
  have len: "11 < length (map labelWidth labels)"
    by (simp add: labels_def)
  have gen: "generateMonthLabels c =
      (if sum_list (map labelWidth labels) \<noteq> containerWidth c
       then labels[11 := (labels ! 11)
              \<lparr>labelWidth := labelWidth (labels ! 11)
                 + (containerWidth c - sum_list (map labelWidth labels))\<rparr>]
       else labels)"
    unfolding generateMonthLabels_def labels_def Let_def foldl_sum_widths by simp
  show ?thesis
  proof (cases "sum_list (map labelWidth labels) = containerWidth c")
    case True
    then show ?thesis
      by (simp add: gen)
  next
    case False
    have "map labelWidth (generateMonthLabels c) =
        (map labelWidth labels)[11 := map labelWidth labels ! 11
           + (containerWidth c - sum_list (map labelWidth labels))]"
      using False len by (simp add: gen map_update)
    then show ?thesis
      using absorb_residual [OF len] by simp
  qed
qed

section \<open>Facts about the drag state\<close>

lemma findIndex_Some: "findIndex p xs = Some j \<Longrightarrow> j < length xs \<and> p (xs ! j)"
  by (induction xs arbitrary: j) (auto split: if_splits option.splits)

lemma findIndex_member: "x \<in> set xs \<Longrightarrow> p x \<Longrightarrow> \<exists>j. findIndex p xs = Some j"
  by (induction xs) (auto split: option.splits)

lemma sameItem_refl: "sameItem x x"
  by (simp add: sameItem_def)

lemma findIndex_unique:
  assumes "findIndex (sameItem pressed) items = Some j"
    and "\<forall>x\<in>set items. sameItem pressed x \<longrightarrow> x = pressed"
  shows "items ! j = pressed"
  using findIndex_Some [OF assms(1)] assms(2) by simp

lemma filteredItems_member:
  "index < length (filteredItems c items) \<Longrightarrow> filteredItems c items ! index \<in> set items"
proof -
  assume "index < length (filteredItems c items)"
  then have "filteredItems c items ! index \<in> set (filteredItems c items)"
    by (rule nth_mem)
  then show ?thesis
    by (simp add: filteredItems_def)
qed

lemma dayWidth_nonzero: "dayWidth c \<noteq> 0 \<longleftrightarrow> containerWidth c \<noteq> 0"
  by (cases "viewMode c") (simp_all add: dayWidth_def)

lemma pixelsToDays_finite:
  "containerWidth c \<noteq> 0 \<Longrightarrow> pixelsToDays c px = Num (Math_round (px / dayWidth c))"
  by (simp add: pixelsToDays_def js_div_def dayWidth_nonzero)

lemma startResize_fields:
  "isDragging (startResize c s event type index item)"
  "activeItemIndex (startResize c s event type index item) = Some index"
  "dragType (startResize c s event type index item) = type"
  "initialMouseX (startResize c s event type index item) = clientX event"
  "lastProcessedX (startResize c s event type index item) = clientX event"
  "isFirstDragMovement (startResize c s event type index item)"
  "initialItemWidth (startResize c s event type index item) = width item"
  "initialItemStartPx (startResize c s event type index item) = left item"
  "initialStartDay (startResize c s event type index item) = start item"
  "initialEndDay (startResize c s event type index item) = start item + durationDays item - 1"
  by (simp_all add: startResize_def Let_def updateTooltipPosition_def split: option.splits)

lemma updateTooltipPosition_fields:
  "isDragging (updateTooltipPosition s e) = isDragging s"
  "activeItemIndex (updateTooltipPosition s e) = activeItemIndex s"
  "dragType (updateTooltipPosition s e) = dragType s"
  "initialMouseX (updateTooltipPosition s e) = initialMouseX s"
  "lastProcessedX (updateTooltipPosition s e) = lastProcessedX s"
  "isFirstDragMovement (updateTooltipPosition s e) = isFirstDragMovement s"
  "initialItemWidth (updateTooltipPosition s e) = initialItemWidth s"
  "initialItemStartPx (updateTooltipPosition s e) = initialItemStartPx s"
  "initialStartDay (updateTooltipPosition s e) = initialStartDay s"
  "initialEndDay (updateTooltipPosition s e) = initialEndDay s"
  by (simp_all add: updateTooltipPosition_def Let_def)

lemma handleStartResizePixels_fields:
  "isDragging (handleStartResizePixels c s d) = isDragging s"
  "activeItemIndex (handleStartResizePixels c s d) = activeItemIndex s"
  "dragType (handleStartResizePixels c s d) = dragType s"
  "initialMouseX (handleStartResizePixels c s d) = initialMouseX s"
  "lastProcessedX (handleStartResizePixels c s d) = lastProcessedX s"
  "isFirstDragMovement (handleStartResizePixels c s d) = isFirstDragMovement s"
  "initialItemWidth (handleStartResizePixels c s d) = initialItemWidth s"
  "initialItemStartPx (handleStartResizePixels c s d) = initialItemStartPx s"
  "initialStartDay (handleStartResizePixels c s d) = initialStartDay s"
  "initialEndDay (handleStartResizePixels c s d) = initialEndDay s"
  by (simp_all add: handleStartResizePixels_def updateItemStylePixels_def Let_def)

lemma handleEndResizePixels_fields:
  "isDragging (handleEndResizePixels c s d) = isDragging s"
  "activeItemIndex (handleEndResizePixels c s d) = activeItemIndex s"
  "dragType (handleEndResizePixels c s d) = dragType s"
  "initialMouseX (handleEndResizePixels c s d) = initialMouseX s"
  "lastProcessedX (handleEndResizePixels c s d) = lastProcessedX s"
  "isFirstDragMovement (handleEndResizePixels c s d) = isFirstDragMovement s"
  "initialItemWidth (handleEndResizePixels c s d) = initialItemWidth s"
  "initialItemStartPx (handleEndResizePixels c s d) = initialItemStartPx s"
  "initialStartDay (handleEndResizePixels c s d) = initialStartDay s"
  "initialEndDay (handleEndResizePixels c s d) = initialEndDay s"
  by (simp_all add: handleEndResizePixels_def updateItemStylePixels_def Let_def)

lemma handleMovePixels_fields:
  "isDragging (handleMovePixels c s d) = isDragging s"
  "activeItemIndex (handleMovePixels c s d) = activeItemIndex s"
  "dragType (handleMovePixels c s d) = dragType s"
  "initialMouseX (handleMovePixels c s d) = initialMouseX s"
  "lastProcessedX (handleMovePixels c s d) = lastProcessedX s"
  "isFirstDragMovement (handleMovePixels c s d) = isFirstDragMovement s"
  "initialItemWidth (handleMovePixels c s d) = initialItemWidth s"
  "initialItemStartPx (handleMovePixels c s d) = initialItemStartPx s"
  "initialStartDay (handleMovePixels c s d) = initialStartDay s"
  "initialEndDay (handleMovePixels c s d) = initialEndDay s"
  by (simp_all add: handleMovePixels_def updateItemStylePixels_def Let_def)

lemmas handler_fields =
  updateTooltipPosition_fields handleStartResizePixels_fields
  handleEndResizePixels_fields handleMovePixels_fields

lemma onMouseMove_fields:
  "isDragging (onMouseMove c s e) = isDragging s"
  "activeItemIndex (onMouseMove c s e) = activeItemIndex s"
  "dragType (onMouseMove c s e) = dragType s"
  "initialMouseX (onMouseMove c s e) = initialMouseX s"
  "initialItemWidth (onMouseMove c s e) = initialItemWidth s"
  "initialItemStartPx (onMouseMove c s e) = initialItemStartPx s"
  "initialStartDay (onMouseMove c s e) = initialStartDay s"
  "initialEndDay (onMouseMove c s e) = initialEndDay s"
  by (simp_all add: onMouseMove_def Let_def handler_fields)

lemma onMouseMove_first:
  "isDragging s \<Longrightarrow> activeItemIndex s = Some index \<Longrightarrow>
   throttleDistance \<le> \<bar>clientX e - lastProcessedX s\<bar> \<Longrightarrow>
   2 \<le> \<bar>clientX e - initialMouseX s\<bar> \<Longrightarrow>
   \<not> isFirstDragMovement (onMouseMove c s e)"
  by (simp add: onMouseMove_def Let_def handler_fields)

lemma moves_fields:
  "isDragging (foldl (onMouseMove c) s es) = isDragging s"
  "activeItemIndex (foldl (onMouseMove c) s es) = activeItemIndex s"
  "dragType (foldl (onMouseMove c) s es) = dragType s"
  "initialMouseX (foldl (onMouseMove c) s es) = initialMouseX s"
  by (induction es arbitrary: s) (simp_all add: onMouseMove_fields)


lemma onMouseUp_click:
  assumes "isDragging s" and "activeItemIndex s = Some index" and "index < length flist"
    and "findIndex (sameItem (flist ! index)) items = Some j"
    and "isFirstDragMovement s \<or> \<bar>clientX up - initialMouseX s\<bar> \<le> 3"
  shows "onMouseUp c s up flist items =
     Inr (resetDragState (s\<lparr>tooltipState := (tooltipState s)\<lparr>tooltipShow := False\<rparr>\<rparr>),
          [Select (items ! j)])"
  using assms by (auto simp add: onMouseUp_def Let_def)

lemma onMouseUp_commit:
  assumes "isDragging s" and "activeItemIndex s = Some index" and "index < length flist"
    and "findIndex (sameItem (flist ! index)) items = Some j"
    and "\<not> isFirstDragMovement s" and "3 < \<bar>clientX up - initialMouseX s\<bar>"
    and "containerWidth c \<noteq> 0"
  shows "onMouseUp c s up flist items =
     Inr (resetDragState (s\<lparr>tooltipState := (tooltipState s)\<lparr>tooltipShow := False\<rparr>\<rparr>),
       (let yearStart = getYearStart (selectedYear c);
            deltaX = clientX up - initialMouseX s;
            originalItem = items ! j
        in if dragType s = Start then
             let u = originalItem\<lparr>startDate := createDateAtDay yearStart
                       (initialStartDay s
                          + Math_round (min deltaX (initialItemWidth s - 4) / dayWidth c)) False\<rparr>
             in [UpdateItem u, Resize u]
           else if dragType s = End then
             let u = originalItem\<lparr>endDate := createDateAtDay yearStart
                       (initialEndDay s
                          + Math_round ((initialItemStartPx s + max 4 (initialItemWidth s + deltaX)
                               - (initialItemStartPx s + initialItemWidth s)) / dayWidth c)) True\<rparr>
             in [UpdateItem u, Resize u]
           else
             let u = originalItem\<lparr>
                       startDate := createDateAtDay yearStart
                         (initialStartDay s + Math_round (deltaX / dayWidth c)) False,
                       endDate := createDateAtDay yearStart
                         (initialEndDay s + Math_round (deltaX / dayWidth c)) True\<rparr>
             in UpdateItem u # (if dragType s = Move then [MoveItem u] else [])))"
  using assms by (simp add: onMouseUp_def Let_def pixelsToDays_finite)


lemma resetDragState_idle: "\<not> isDragging (resetDragState s)"
  by (simp add: resetDragState_def)

lemma pixelsToDays_Num:
  "pixelsToDays c px = Num d \<Longrightarrow> containerWidth c \<noteq> 0 \<and> d = Math_round (px / dayWidth c)"
  by (auto simp add: pixelsToDays_def js_div_def dayWidth_nonzero split: if_splits)

section \<open>Facts about the projection\<close>

lemma cdbp_start_clamped:
  assumes "startDate item < Date_new (selectedYear c) 0 1 0 0 0 0"
  shows "start (fst (computeDateBasedPosition c cache item)) = 0"
  using assms
  by (simp add: computeDateBasedPosition_def Let_def getTime_def Date_new_Jan1 setHours_eq
      Day_mult MakeTime_midnight split: prod.splits)

lemma Day_Dec31:
  "Day (Date_new year 11 31 23 59 59 0) =
     DayFromYear (fullYear year) + (if InLeapYear (fullYear year) then 365 else 364)"
proof -
  have "Date_new year 11 31 23 59 59 0 =
      MakeDate (DayFromYear (fullYear year) + (if InLeapYear (fullYear year) then 365 else 364))
        86399000"
    by (simp add: Date_new_Dec31 MakeDate_def)
  then show ?thesis
    by (simp add: Day_MakeDate msPerDay_def)
qed

lemma floor_days:
  assumes "0 \<le> r" and "r < msPerDay"
  shows "\<lfloor>of_int (a * msPerDay + r - b * msPerDay) / of_int (24 * 60 * 60 * 1000 :: int) :: real\<rfloor>
     = a - b"
proof -
  have "(a * msPerDay + r - b * msPerDay) div msPerDay = (r + (a - b) * msPerDay) div msPerDay"
    by (simp add: algebra_simps)
  also have "\<dots> = (a - b) + r div msPerDay"
    using msPerDay_pos by simp
  also have "\<dots> = a - b"
    using assms by (simp add: div_pos_pos_trivial)
  finally have "(a * msPerDay + r - b * msPerDay) div msPerDay = a - b" .
  then show ?thesis
    unfolding floor_divide_of_int_eq by (simp add: msPerDay_def)
qed

lemma Day_mono: "a \<le> b \<Longrightarrow> Day a \<le> Day b"
  using msPerDay_pos by (simp add: Day_def zdiv_mono1)

lemma cdbp_end_clamped:
  assumes late: "Date_new (selectedYear c) 11 31 23 59 59 0 < endDate item"
    and inside: "startDate item \<le> Date_new (selectedYear c) 11 31 23 59 59 0"
  shows "endDay (fst (computeDateBasedPosition c cache item)) =
     (if InLeapYear (fullYear (selectedYear c)) then 365 else 364)"
proof -
  define Y where "Y = DayFromYear (fullYear (selectedYear c))"
  define L :: int where "L = (if InLeapYear (fullYear (selectedYear c)) then 365 else 364)"
  define es where "es = (if startDate item < Date_new (selectedYear c) 0 1 0 0 0 0
                         then Date_new (selectedYear c) 0 1 0 0 0 0 else startDate item)"
  have ys: "Date_new (selectedYear c) 0 1 0 0 0 0 = Y * msPerDay"
    by (simp add: Date_new_Jan1 Y_def)
  have dye: "Day (Date_new (selectedYear c) 11 31 23 59 59 0) = Y + L"
    by (simp add: Day_Dec31 Y_def L_def)
  have Lpos: "0 \<le> L"
    by (simp add: L_def)
  have "Date_new (selectedYear c) 0 1 0 0 0 0 \<le> Date_new (selectedYear c) 11 31 23 59 59 0"
    using msPerDay_pos Lpos by (simp add: ys Date_new_Dec31 Y_def [symmetric] L_def [symmetric] algebra_simps)
  then have es_le: "es \<le> Date_new (selectedYear c) 11 31 23 59 59 0"
    using inside by (simp add: es_def)
  have es_ge: "Y * msPerDay \<le> es"
    by (simp add: es_def ys)
  have lo: "Y \<le> Day es"
    using Day_mono [OF es_ge] by (simp add: Day_mult)
  have hi: "Day es \<le> Y + L"
    using Day_mono [OF es_le] by (simp add: dye)
  have endOff: "\<lfloor>of_int (getTime (setHours (Date_new (selectedYear c) 11 31 23 59 59 0) 23 59 59 999)
        - getTime (Date_new (selectedYear c) 0 1 0 0 0 0))
        / of_int (24 * 60 * 60 * 1000 :: int) :: real\<rfloor> = L"
    using floor_days [of "msPerDay - 1" "Y + L" Y] msPerDay_pos
    by (simp add: getTime_def setHours_eq dye ys MakeTime_last)
  have startOff: "\<lfloor>of_int (getTime (setHours es 0 0 0 0)
        - getTime (Date_new (selectedYear c) 0 1 0 0 0 0))
        / of_int (24 * 60 * 60 * 1000 :: int) :: real\<rfloor> = Day es - Y"
    using floor_days [of 0 "Day es" Y] msPerDay_pos
    by (simp add: getTime_def setHours_eq ys MakeTime_midnight)
  have fields: "start (fst (computeDateBasedPosition c cache item)) = max 0 (Day es - Y)"
    "durationDays (fst (computeDateBasedPosition c cache item)) =
       max 1 (L - max 0 (Day es - Y) + 1)"
    using late endOff startOff
    by (simp_all add: computeDateBasedPosition_def Let_def es_def [symmetric] split: prod.splits)
  show ?thesis
    using lo hi by (simp add: endDay_def fields L_def [symmetric])
qed

text \<open>In the week and day views the position of a day is mapped back to that day.\<close>

lemma linear_round_trip:
  assumes "viewMode c \<noteq> months" and "containerWidth c \<noteq> 0"
  shows "pixelsToDays c (fst (getExactPositionForDay c cache d)) = Num d"
proof -
  have "dayWidth c \<noteq> 0"
    using assms(2) by (simp add: dayWidth_nonzero)
  then have "Math_round (of_int d * dayWidth c / dayWidth c) = d"
    by (simp add: Math_round_def)
  then show ?thesis
    using assms by (simp add: getExactPositionForDay_def pixelsToDays_finite)
qed

section \<open>Facts about the example\<close>

lemma year2024_dates:
  "Date_new 2024 0 1 0 0 0 0 = 1704067200000"
  "Date_new 2024 11 31 23 59 59 0 = 1735689599000"
  "getYearStart 2024 = 1704067200000"
  "createDateAtDay (getYearStart 2024) 10 False = 1704931200000"
  "createDateAtDay (getYearStart 2024) 20 True = 1705881599999"
  "createDateAtDay (getYearStart 2024) 22 True = Date_new 2024 0 23 23 59 59 999"
  "getFullYear 1704931200000 = 2024"
  "getFullYear 1705881599999 = 2024"
  by code_simp+

lemma days_view_item_10_20:
  assumes "viewMode c = days" and "selectedYear c = 2024"
    and "startDate it = 1704931200000" and "endDate it = 1705881599999"
  shows "start (fst (computeDateBasedPosition c cache it)) = 10"
    and "durationDays (fst (computeDateBasedPosition c cache it)) = 11"
    and "left (fst (computeDateBasedPosition c cache it)) = 10 * dayWidth c"
    and "width (fst (computeDateBasedPosition c cache it)) = 11 * dayWidth c"
  using assms
  by (simp_all add: computeDateBasedPosition_def Let_def year2024_dates setHours_def Day_def
      MakeDate_def MakeTime_def msPerDay_def getTime_def)

section \<open>The claims\<close>

text \<open>
  C1. The round trip of the projection is claimed for every view mode, within one day.
  In the month view of 2023 with a container of 1200 pixels, day offset 364 is placed at
  \<open>364 / 366 * 1200\<close> pixels, and \<open>pixelsToDays\<close> maps that position to day 358.
\<close>

theorem month_round_trip_2023:
  "pixelsToDays \<lparr>containerWidth = 1200, selectedYear = 2023, viewMode = months\<rparr>
     (fst (getExactPositionForDay
        \<lparr>containerWidth = 1200, selectedYear = 2023, viewMode = months\<rparr> Map.empty 364))
   = Num 358"
  by code_simp

text \<open>
  C2. Click idempotence: a press on an item of the filtered list, any pointer
  moves and a release at the horizontal position of the press raise exactly one
  notification, \<open>select\<close>; nothing is updated, moved or resized, and the session is
  closed. The item carried is the first element of the original list with the identity of
  the pressed item (the same title, and the same id where both have one), unchanged; it is
  the pressed item when no other element of the list has its identity.
\<close>

theorem click_emits_only_select:
  assumes "index < length (filteredItems c items)"
    and "clientX up = clientX down"
  shows "\<exists>j s'. findIndex (sameItem (filteredItems c items ! index)) items = Some j
      \<and> j < length items
      \<and> sameItem (filteredItems c items ! index) (items ! j)
      \<and> onMouseUp c (foldl (onMouseMove c) (startResize c s down type index item) moves) up
            (filteredItems c items) items
          = Inr (s', [Select (items ! j)])
      \<and> \<not> isDragging s'
      \<and> ((\<forall>x\<in>set items. sameItem (filteredItems c items ! index) x
              \<longrightarrow> x = filteredItems c items ! index)
           \<longrightarrow> items ! j = filteredItems c items ! index)"
proof -
  let ?pressed = "filteredItems c items ! index"
  let ?s = "foldl (onMouseMove c) (startResize c s down type index item) moves"
  have mem: "?pressed \<in> set items"
    using assms(1) by (rule filteredItems_member)
  then obtain j where j: "findIndex (sameItem ?pressed) items = Some j"
    using findIndex_member [of ?pressed items "sameItem ?pressed"] sameItem_refl by blast
  then have bound: "j < length items" and same: "sameItem ?pressed (items ! j)"
    using findIndex_Some by blast+
  have "initialMouseX ?s = clientX down"
    by (simp add: moves_fields startResize_fields)
  then have still: "isFirstDragMovement ?s \<or> \<bar>clientX up - initialMouseX ?s\<bar> \<le> 3"
    using assms(2) by simp
  have fired: "onMouseUp c ?s up (filteredItems c items) items =
      Inr (resetDragState (?s\<lparr>tooltipState := (tooltipState ?s)\<lparr>tooltipShow := False\<rparr>\<rparr>),
           [Select (items ! j)])"
    by (rule onMouseUp_click [OF _ _ assms(1) j still])
       (simp_all add: moves_fields startResize_fields)
  have uniq: "(\<forall>x\<in>set items. sameItem ?pressed x \<longrightarrow> x = ?pressed) \<longrightarrow> items ! j = ?pressed"
    using findIndex_unique [OF j] by blast
  show ?thesis
    using j bound same fired uniq resetDragState_idle by blast
qed

theorem click_emits_only_select_witness:
  "1 < length (filteredItems exampleCalc [exampleItem2023, exampleItem])
   \<and> clientX (pointerAt 500) = clientX exampleDown
   \<and> filteredItems exampleCalc [exampleItem2023, exampleItem] ! 1 = exampleItem
   \<and> \<not> sameItem exampleItem exampleItem2023
   \<and> (\<exists>s'. onMouseUp exampleCalc
               (foldl (onMouseMove exampleCalc)
                  (startResize exampleCalc initialDragState exampleDown Move 1 exampleComputed) [])
               (pointerAt 500) (filteredItems exampleCalc [exampleItem2023, exampleItem])
               [exampleItem2023, exampleItem]
             = Inr (s', [Select exampleItem]))"
proof -
  let ?items = "[exampleItem2023, exampleItem]"
  have h1: "1 < length (filteredItems exampleCalc ?items)"
    by code_simp
  have h2: "clientX (pointerAt 500) = clientX exampleDown"
    by code_simp
  have pressed: "filteredItems exampleCalc ?items ! 1 = exampleItem"
    by code_simp
  have other: "\<not> sameItem exampleItem exampleItem2023"
    by code_simp
  have only: "\<forall>x\<in>set ?items. sameItem (filteredItems exampleCalc ?items ! 1) x
      \<longrightarrow> x = filteredItems exampleCalc ?items ! 1"
    unfolding pressed using other by simp
  show ?thesis
    using click_emits_only_select [OF h1 h2, of initialDragState Move exampleComputed "[]"]
      h1 h2 pressed other only
    by auto
qed

text \<open>
  With the select always carrying the pressed item, the statement fails: in a list of two
  items titled Design that have no id, a click on the second one raises \<open>select\<close> with
  the first one, whose dates are different.
\<close>

theorem click_selects_namesake:
  "filteredItems exampleCalc [exampleNamesake, exampleItem] ! 1 = exampleItem
   \<and> map_sum id snd
        (onMouseUp exampleCalc
           (startResize exampleCalc initialDragState exampleDown Move 1 exampleComputed)
           (pointerAt 500)
           (filteredItems exampleCalc [exampleNamesake, exampleItem])
           [exampleNamesake, exampleItem])
       = Inr [Select exampleNamesake]
   \<and> startDate exampleNamesake \<noteq> startDate exampleItem
   \<and> endDate exampleNamesake \<noteq> endDate exampleItem"
  by code_simp

text \<open>
  C3. \<open>daysInYear(year)\<close> is claimed to be the inclusive day count of the year, 365 for a
  common year and 366 for a leap year. The source takes the ceiling of a span that is one
  second short of a whole number of days and then adds one: for the common year 2023,
  which has 365 days, it returns 366.
\<close>

theorem daysInYear_2023:
  "daysInYear \<lparr>containerWidth = w, selectedYear = 2023, viewMode = m\<rparr> = 366
     \<and> DayFromYear 2024 - DayFromYear 2023 = 365"
  by (simp add: daysInYear_eq fullYear_def InLeapYear_def DayFromYear_def)

text \<open>
  C4. Clamp correctness is claimed: a start before 1 January gives start offset 0, and an
  end after 31 December gives the end offset \<open>daysInYear - 1\<close>. The projection does
  clamp the end to the last day of the year (offset 364 in 2023, see \<open>cdbp_end_clamped\<close>,
  and \<open>cdbp_start_clamped\<close> for the start), but \<open>daysInYear\<close> is 366 for 2023, so the
  end offset is not \<open>daysInYear - 1\<close> = 365.
\<close>

theorem end_offset_2023:
  "Date_new 2023 11 31 23 59 59 0 < endDate exampleItem2023
   \<and> endDay (fst (computeDateBasedPosition exampleCalc2023 Map.empty exampleItem2023)) = 364
   \<and> daysInYear exampleCalc2023 - 1 = 365"
  by code_simp



text \<open>
  C6. Resize-end snap in the day view: an item on day offsets 10 to 20 of 2024 is pressed
  on its end handle, and the pointer is moved and released two unit widths to the right
  (a drag, since the container is wider than 45 pixels and two unit widths exceed the
  click threshold of 3 pixels). The committed item is the original one with \<open>endDate\<close>
  at day offset 22, 23:59:59.999, which is 23 January 2024; \<open>startDate\<close> is unchanged.
\<close>

theorem resize_end_snap_days:
  assumes "viewMode c = days" and "selectedYear c = 2024" and "45 < containerWidth c"
    and "startDate it = createDateAtDay (getYearStart 2024) 10 False"
    and "endDate it = createDateAtDay (getYearStart 2024) 20 True"
    and "clientX mv = clientX down + 2 * dayWidth c"
    and "clientX up = clientX down + 2 * dayWidth c"
  shows "start (fst (computeDateBasedPosition c cache it)) = 10
     \<and> endDay (fst (computeDateBasedPosition c cache it)) = 20
     \<and> (\<exists>s'. onMouseUp c
            (onMouseMove c
               (startResize c s down End 0 (fst (computeDateBasedPosition c cache it))) mv)
            up (filteredItems c [it]) [it]
          = Inr (s', [UpdateItem (it\<lparr>endDate := createDateAtDay (getYearStart 2024) 22 True\<rparr>),
                      Resize (it\<lparr>endDate := createDateAtDay (getYearStart 2024) 22 True\<rparr>)]))
     \<and> createDateAtDay (getYearStart 2024) 22 True = Date_new 2024 0 23 23 59 59 999"
proof -
  let ?ci = "fst (computeDateBasedPosition c cache it)"
  let ?s1 = "startResize c s down End 0 ?ci"
  let ?s2 = "onMouseMove c ?s1 mv"
  have sd: "startDate it = 1704931200000" and ed: "endDate it = 1705881599999"
    using assms(4,5) by (simp_all only: year2024_dates(4,5))
  note ci = days_view_item_10_20 [OF assms(1,2) sd ed, of cache]
  have w: "dayWidth c = containerWidth c / 30"
    using assms(1) by (simp add: dayWidth_def)
  have wbig: "3 < 2 * dayWidth c"
    using assms(3) by (simp add: w)
  have flist: "filteredItems c [it] = [it]"
    using assms(2) by (simp add: filteredItems_def Let_def sd ed year2024_dates)
  have first: "\<not> isFirstDragMovement ?s2"
    using wbig
    by (intro onMouseMove_first [where index = 0])
       (simp_all add: startResize_fields assms(6) throttleDistance_def)
  have found: "findIndex (sameItem ([it] ! 0)) [it] = Some 0"
    by (simp add: sameItem_refl)
  have far: "3 < \<bar>clientX up - initialMouseX ?s2\<bar>"
    using wbig by (simp add: onMouseMove_fields startResize_fields assms(7))
  have width: "containerWidth c \<noteq> 0"
    using assms(3) by simp
  have commit: "onMouseUp c ?s2 up [it] [it] =
      Inr (resetDragState (?s2\<lparr>tooltipState := (tooltipState ?s2)\<lparr>tooltipShow := False\<rparr>\<rparr>),
           [UpdateItem (it\<lparr>endDate := createDateAtDay (getYearStart 2024) 22 True\<rparr>),
            Resize (it\<lparr>endDate := createDateAtDay (getYearStart 2024) 22 True\<rparr>)])"
  proof -
    have pos: "dayWidth c \<noteq> 0"
      using wbig by auto
    have wide: "\<not> 13 * dayWidth c < 4"
      using wbig by simp
    have kind: "dragType ?s2 = End"
      by (simp add: onMouseMove_fields startResize_fields)
    have two: "Math_round 2 = 2"
      by (simp add: Math_round_def)
    have steps: "max 4 (11 * dayWidth c + (clientX up - clientX down)) - 11 * dayWidth c
        = 2 * dayWidth c"
      using wide by (simp add: assms(7) max_def)
    show ?thesis
      using onMouseUp_commit [of ?s2 0 "[it]" "[it]" 0 up c, OF _ _ _ found first far width]
      by (simp add: onMouseMove_fields startResize_fields Let_def kind assms(2) steps two pos ci)
  qed
  show ?thesis
    using commit year2024_dates(6) by (simp add: flist ci endDay_def)
qed

theorem resize_end_snap_days_witness:
  "viewMode exampleCalc = days \<and> selectedYear exampleCalc = 2024
   \<and> 45 < containerWidth exampleCalc
   \<and> startDate exampleItem = createDateAtDay (getYearStart 2024) 10 False
   \<and> endDate exampleItem = createDateAtDay (getYearStart 2024) 20 True
   \<and> clientX (pointerAt 560) = clientX exampleDown + 2 * dayWidth exampleCalc
   \<and> (\<exists>s'. onMouseUp exampleCalc (exampleDrag End 560) (pointerAt 560)
               (filteredItems exampleCalc [exampleItem]) [exampleItem]
             = Inr (s', [UpdateItem (exampleItem\<lparr>endDate := createDateAtDay (getYearStart 2024) 22 True\<rparr>),
                         Resize (exampleItem\<lparr>endDate := createDateAtDay (getYearStart 2024) 22 True\<rparr>)]))
   \<and> createDateAtDay (getYearStart 2024) 22 True = Date_new 2024 0 23 23 59 59 999"
proof -
  have h: "viewMode exampleCalc = days" "selectedYear exampleCalc = 2024"
    "45 < containerWidth exampleCalc"
    "startDate exampleItem = createDateAtDay (getYearStart 2024) 10 False"
    "endDate exampleItem = createDateAtDay (getYearStart 2024) 20 True"
    "clientX (pointerAt 560) = clientX exampleDown + 2 * dayWidth exampleCalc"
    "clientX (pointerAt 560) = clientX exampleDown + 2 * dayWidth exampleCalc"
    by code_simp+
  show ?thesis
    using resize_end_snap_days [OF h, of Map.empty initialDragState] h
    unfolding exampleDrag_def exampleComputed_def by blast
qed

text \<open>
  C7. Month-label width conservation: for every container width and every year there are
  12 month labels, their widths sum to the container width, and the first eleven keep
  their rounded widths, so the residual is carried by the last label alone.
\<close>

theorem month_label_width_conservation:
  "length (generateMonthLabels c) = 12
     \<and> sum_list (map labelWidth (generateMonthLabels c)) = containerWidth c
     \<and> take 11 (generateMonthLabels c) = map (monthLabel c) [0..<11]"
  by (simp add: month_labels_sum) (simp add: generateMonthLabels_def Let_def take_map)

text \<open>
  C8. Minimum duration: for every item, whatever its dates, the \<open>durationDays\<close> of the
  computed item is an integer that is at least 1.
\<close>

theorem projection_min_duration:
  "1 \<le> durationDays (fst (computeDateBasedPosition c dayPositionCache item))"
  by (simp add: computeDateBasedPosition_def Let_def split: prod.splits)

text \<open>
  C9. Zero-width safety is claimed: with a container width of zero the unit widths fall
  back to fixed values, so that no division yields a non-finite value. \<open>timeUnitWidth\<close>
  does fall back; \<open>dayWidth\<close> does not: at width zero it is zero in every view mode,
  and \<open>pixelsToDays\<close> of 5 pixels is Infinity, of 0 pixels NaN.
\<close>

theorem dayWidth_zero_container:
  "dayWidth (c\<lparr>containerWidth := 0\<rparr>) = 0
     \<and> pixelsToDays (c\<lparr>containerWidth := 0\<rparr>) 5 = PosInfinity
     \<and> pixelsToDays (c\<lparr>containerWidth := 0\<rparr>) 0 = NaN
     \<and> timeUnitWidth (c\<lparr>containerWidth := 0\<rparr>) \<noteq> 0"
  by (cases "viewMode c") (simp_all add: dayWidth_def pixelsToDays_def js_div_def timeUnitWidth_def)

text \<open>
  C10. The left-edge clamp: for a completed move or resize of the start whose
  day delta takes the start day below zero, the committed \<open>startDate\<close> is
  \<open>createDateAtDay\<close> at that negative offset, which lies before 1 January of the selected
  year. While moving, the left edge drawn is \<open>max(0, initialLeft + deltaX)\<close>; while
  resizing the start it is \<open>initialLeft + min(deltaX, initialWidth - 4)\<close>, with no clamp
  at the left edge.
\<close>

theorem commit_not_clamped_to_year_start:
  assumes "isDragging s" and "activeItemIndex s = Some index" and "index < length flist"
    and "findIndex (sameItem (flist ! index)) items = Some j"
    and "\<not> isFirstDragMovement s" and "3 < \<bar>clientX up - initialMouseX s\<bar>"
    and "dragType s = Move \<or> dragType s = Start"
    and "pixelsToDays c
           (if dragType s = Start
            then min (clientX up - initialMouseX s) (initialItemWidth s - 4)
            else clientX up - initialMouseX s) = Num dayDelta"
    and "initialStartDay s + dayDelta < 0"
  shows "(\<exists>s' u rest. onMouseUp c s up flist items = Inr (s', UpdateItem u # rest)
        \<and> startDate u = createDateAtDay (getYearStart (selectedYear c))
                           (initialStartDay s + dayDelta) False
        \<and> startDate u < getYearStart (selectedYear c))
      \<and> (dragType s = Move \<longrightarrow>
           transform (activeItemStyle (handleMovePixels c s (clientX up - initialMouseX s)))
             = max 0 (initialItemStartPx s + (clientX up - initialMouseX s)))
      \<and> (dragType s = Start \<longrightarrow>
           transform (activeItemStyle (handleStartResizePixels c s (clientX up - initialMouseX s)))
             = initialItemStartPx s
                 + min (clientX up - initialMouseX s) (initialItemWidth s - 4))"
proof -
  have width: "containerWidth c \<noteq> 0"
    and delta: "dayDelta = Math_round
        ((if dragType s = Start
          then min (clientX up - initialMouseX s) (initialItemWidth s - 4)
          else clientX up - initialMouseX s) / dayWidth c)"
    using pixelsToDays_Num [OF assms(8)] by simp_all
  have before: "createDateAtDay (getYearStart (selectedYear c)) (initialStartDay s + dayDelta) False
      < getYearStart (selectedYear c)"
    using assms(9) msPerDay_pos
    by (simp add: createDateAtDay_eq getYearStart_eq Day_mult)
  have moved: "transform (activeItemStyle (handleMovePixels c s (clientX up - initialMouseX s)))
      = max 0 (initialItemStartPx s + (clientX up - initialMouseX s))"
    using assms(2) by (simp add: handleMovePixels_def updateItemStylePixels_def Let_def)
  have resized:
    "transform (activeItemStyle (handleStartResizePixels c s (clientX up - initialMouseX s)))
      = initialItemStartPx s + min (clientX up - initialMouseX s) (initialItemWidth s - 4)"
    using assms(2) by (simp add: handleStartResizePixels_def updateItemStylePixels_def Let_def)
  have commit: "\<exists>s' u rest. onMouseUp c s up flist items = Inr (s', UpdateItem u # rest)
        \<and> startDate u = createDateAtDay (getYearStart (selectedYear c))
                           (initialStartDay s + dayDelta) False
        \<and> startDate u < getYearStart (selectedYear c)"
    using assms(7)
  proof
    assume "dragType s = Move"
    then show ?thesis
      using onMouseUp_commit [OF assms(1-6) width] delta before
      by (simp add: Let_def)
  next
    assume "dragType s = Start"
    then show ?thesis
      using onMouseUp_commit [OF assms(1-6) width] delta before
      by (simp add: Let_def)
  qed
  show ?thesis
    using commit moved resized by blast
qed

theorem commit_not_clamped_to_year_start_witness:
  "(pixelsToDays exampleCalc (100 - 500) = Num (- 13)
    \<and> initialStartDay (exampleDrag Move 100) + (- 13) < 0
    \<and> dragType (exampleDrag Move 100) = Move
    \<and> (\<exists>s' u rest. onMouseUp exampleCalc (exampleDrag Move 100) (pointerAt 100)
                       [exampleItem] [exampleItem] = Inr (s', UpdateItem u # rest)
                    \<and> startDate u < getYearStart 2024)
    \<and> transform (activeItemStyle
          (handleMovePixels exampleCalc (exampleDrag Move 100) (100 - 500))) = 0)
   \<and> (initialStartDay (exampleDrag Start 100) + (- 13) < 0
    \<and> dragType (exampleDrag Start 100) = Start
    \<and> (\<exists>s' u rest. onMouseUp exampleCalc (exampleDrag Start 100) (pointerAt 100)
                       [exampleItem] [exampleItem] = Inr (s', UpdateItem u # rest)
                    \<and> startDate u < getYearStart 2024)
    \<and> transform (activeItemStyle
          (handleStartResizePixels exampleCalc (exampleDrag Start 100) (100 - 500))) = - 100)"
proof -
  have m: "isDragging (exampleDrag Move 100)" "activeItemIndex (exampleDrag Move 100) = Some 0"
    "(0::nat) < length [exampleItem]"
    "findIndex (sameItem ([exampleItem] ! 0)) [exampleItem] = Some 0"
    "\<not> isFirstDragMovement (exampleDrag Move 100)"
    "3 < \<bar>clientX (pointerAt 100) - initialMouseX (exampleDrag Move 100)\<bar>"
    "dragType (exampleDrag Move 100) = Move \<or> dragType (exampleDrag Move 100) = Start"
    "pixelsToDays exampleCalc
       (if dragType (exampleDrag Move 100) = Start
        then min (clientX (pointerAt 100) - initialMouseX (exampleDrag Move 100))
                 (initialItemWidth (exampleDrag Move 100) - 4)
        else clientX (pointerAt 100) - initialMouseX (exampleDrag Move 100)) = Num (- 13)"
    "initialStartDay (exampleDrag Move 100) + (- 13) < 0"
    by code_simp+
  have r: "isDragging (exampleDrag Start 100)" "activeItemIndex (exampleDrag Start 100) = Some 0"
    "(0::nat) < length [exampleItem]"
    "findIndex (sameItem ([exampleItem] ! 0)) [exampleItem] = Some 0"
    "\<not> isFirstDragMovement (exampleDrag Start 100)"
    "3 < \<bar>clientX (pointerAt 100) - initialMouseX (exampleDrag Start 100)\<bar>"
    "dragType (exampleDrag Start 100) = Move \<or> dragType (exampleDrag Start 100) = Start"
    "pixelsToDays exampleCalc
       (if dragType (exampleDrag Start 100) = Start
        then min (clientX (pointerAt 100) - initialMouseX (exampleDrag Start 100))
                 (initialItemWidth (exampleDrag Start 100) - 4)
        else clientX (pointerAt 100) - initialMouseX (exampleDrag Start 100)) = Num (- 13)"
    "initialStartDay (exampleDrag Start 100) + (- 13) < 0"
    by code_simp+
  have facts: "pixelsToDays exampleCalc (100 - 500) = Num (- 13)"
    "selectedYear exampleCalc = 2024"
    "dragType (exampleDrag Move 100) = Move"
    "dragType (exampleDrag Start 100) = Start"
    "transform (activeItemStyle
       (handleMovePixels exampleCalc (exampleDrag Move 100) (100 - 500))) = 0"
    "transform (activeItemStyle
       (handleStartResizePixels exampleCalc (exampleDrag Start 100) (100 - 500))) = - 100"
    by code_simp+
  have mv: "\<exists>s' u rest. onMouseUp exampleCalc (exampleDrag Move 100) (pointerAt 100)
                       [exampleItem] [exampleItem] = Inr (s', UpdateItem u # rest)
                    \<and> startDate u < getYearStart 2024"
    using commit_not_clamped_to_year_start [OF m] facts(2) by auto
  have st: "\<exists>s' u rest. onMouseUp exampleCalc (exampleDrag Start 100) (pointerAt 100)
                       [exampleItem] [exampleItem] = Inr (s', UpdateItem u # rest)
                    \<and> startDate u < getYearStart 2024"
    using commit_not_clamped_to_year_start [OF r] facts(2) by auto
  show ?thesis
    using mv st m(9) r(9) facts by simp
qed

text \<open>
  With a left-edge clamp in the resize-start phase, the statement fails: a resize of the
  start moved 400 pixels to the left draws the left edge at -100 pixels.
\<close>

theorem resize_start_left_edge_unclamped:
  "dragType (exampleDrag Start 100) = Start
   \<and> transform (activeItemStyle (exampleDrag Start 100)) = - 100"
  by code_simp

end
